theory Spec2Isabelle
  imports Complex_Main
begin

section \<open>The virtual list component of \<open>src/List.tsx\<close>\<close>

text \<open>
  The component keeps a window \<open>[startIndex, endIndex]\<close> of a long list rendered inside a
  scrolling container. A scroll event estimates the window; the commit that follows measures
  the rendered items and corrects the top offset of the window.

  Numbers of the source are IEEE doubles. Here pixel magnitudes and percentages are
  \<open>real\<close> and the results of \<open>Math.floor\<close> and \<open>Math.ceil\<close> are \<open>int\<close>.
  The arithmetic of \<open>onScroll\<close> and \<open>componentDidUpdate\<close> is given twice. The
  definitions \<open>onScroll\<close> and \<open>componentDidUpdate\<close> compute in exact arithmetic; they
  serve the properties that depend on the control flow, on signs and on clamps only. The
  definitions \<open>onScroll_rnd\<close> and \<open>componentDidUpdate_rnd\<close> round the result of every
  arithmetic operation of the source with a rounding \<open>rnd\<close>; with \<open>fl\<close>, the rounding
  of doubles to the nearest, they compute what the source computes, and the corrected top
  offset is studied on them. For the rounding that changes nothing the two agree
  (\<open>methods_rnd_id\<close>).

  A computation whose value in the source is \<open>NaN\<close> or an infinity ends in the outcome
  \<open>NonFinite\<close>. An exception of the source ends in the outcome \<open>TypeError\<close>.
\<close>

subsection \<open>Data\<close>

datatype fault = TypeError | NonFinite

text \<open>
  The value \<open>item[itemKey]\<close> read off an item, or the numeric index: what
  \<open>getItemKey\<close> returns.
\<close>

datatype jsval = JUndefined | JNum int | JStr string

text \<open>
  An element of \<open>dataSource\<close>. \<open>Falsy\<close> stands for every value on which
  \<open>item && ...\<close> does not reach the right operand (\<open>undefined\<close>, \<open>null\<close>, a hole
  of the array); any other item is given by the fields it has.
\<close>

datatype item = Falsy | Obj "(string \<times> jsval) list"

datatype status = NONE | MEASURE_START | MEASURE_DONE

record ListProps =
  dataSource :: "item list"
  height :: "real option"
  itemHeight :: real
  itemKey :: "string option"

record ListState =
  status :: status
  scrollTop :: "real option"
  scrollPtg :: real
  itemIndex :: int
  itemOffsetPtg :: real
  startIndex :: int
  endIndex :: int
  startItemTop :: real

text \<open>The three layout properties of the scroll container that the component reads.\<close>

record element =
  el_scrollTop :: real
  scrollHeight :: real
  clientHeight :: real

text \<open>
  The instance: \<open>this.state\<close>, \<open>this.listRef.current\<close> (\<open>None\<close> while no node is
  attached), the cache \<open>this.itemElementHeights\<close> indexed by property name, and the lines
  written to the console.
\<close>

record Instance =
  state :: ListState
  listRef :: "element option"
  itemElementHeights :: "string \<rightharpoonup> real"
  console :: "string list"

text \<open>What \<open>render\<close> hands to the host: the props of the container and of \<open>Filler\<close>.\<close>

record Rendered =
  r_onScroll :: bool
  r_ref :: bool
  filler_height :: "real option"
  filler_offset :: "real option"
  r_children :: "(jsval \<times> item) list"

definition defaultItemHeight :: real where
  "defaultItemHeight = 15"

definition initial_state :: ListState where
  "initial_state =
     \<lparr>status = NONE, scrollTop = None, scrollPtg = 0, itemIndex = 0, itemOffsetPtg = 0,
      startIndex = 0, endIndex = 0, startItemTop = 0\<rparr>"

subsection \<open>JavaScript primitives used by the component\<close>

definition truthy :: "item \<Rightarrow> bool" where
  "truthy it = (case it of Falsy \<Rightarrow> False | Obj _ \<Rightarrow> True)"

text \<open>\<open>xs[i]\<close>: \<open>undefined\<close> outside the array.\<close>

definition js_index :: "item list \<Rightarrow> int \<Rightarrow> item" where
  "js_index xs i = (if 0 \<le> i \<and> i < int (length xs) then xs ! nat i else Falsy)"

text \<open>\<open>item[k]\<close>: \<open>undefined\<close> when the item has no such field.\<close>

definition get_field :: "item \<Rightarrow> string \<Rightarrow> jsval" where
  "get_field it k =
     (case it of
        Falsy \<Rightarrow> JUndefined
      | Obj fs \<Rightarrow> (case map_of fs k of None \<Rightarrow> JUndefined | Some v \<Rightarrow> v))"

text \<open>\<open>xs.slice(start, end)\<close>: a negative bound counts from the end of the array.\<close>

definition js_slice :: "'a list \<Rightarrow> int \<Rightarrow> int \<Rightarrow> 'a list" where
  "js_slice xs start end =
     (let n = int (length xs);
          s = (if start < 0 then max 0 (n + start) else min start n);
          e = (if end < 0 then max 0 (n + end) else min end n)
      in take (nat (e - s)) (drop (nat s) xs))"

fun digits :: "nat \<Rightarrow> string" where
  "digits n =
     (if n < 10 then [''0123456789'' ! n]
      else digits (n div 10) @ [''0123456789'' ! (n mod 10)])"

declare digits.simps [simp del]

text \<open>
  The property name under which a key indexes \<open>itemElementHeights\<close>: object keys are
  strings, so the index \<open>5\<close> and the field value \<open>"5"\<close> name the same entry.
\<close>

definition prop_name :: "jsval \<Rightarrow> string" where
  "prop_name v =
     (case v of
        JUndefined \<Rightarrow> ''undefined''
      | JNum i \<Rightarrow> (if i < 0 then CHR ''-'' # digits (nat (- i)) else digits (nat i))
      | JStr s \<Rightarrow> s)"

text \<open>\<open>heights[k] || 0\<close>: a key never measured reads as \<open>0\<close>.\<close>

definition height_or_0 :: "(string \<rightharpoonup> real) \<Rightarrow> string \<Rightarrow> real" where
  "height_or_0 heights k = (case heights k of None \<Rightarrow> 0 | Some h \<Rightarrow> h)"

subsection \<open>The rounding of doubles\<close>

text \<open>
  A double has a significand of 53 bits: the doubles of the binade \<open>[2^e, 2^(e+1))\<close> are
  the multiples of \<open>2^(e-52)\<close>. The result of an arithmetic operation of the source is
  the double nearest to the exact result, the one with the even significand when two are
  equally near. The exponent is not bounded here: overflow to an infinity and the gradual
  underflow below \<open>2^-1022\<close> are not modelled.

  \<open>binade x\<close> is the exponent \<open>e\<close> with \<open>2^e \<le> x < 2^(e+1)\<close> of a positive \<open>x\<close>.
\<close>

function binade :: "real \<Rightarrow> int" where
  "binade x =
     (if x \<le> 0 then 0
      else if 2 \<le> x then binade (x / 2) + 1
      else if x < 1 then binade (x * 2) - 1
      else 0)"
  by pat_completeness auto
termination
proof (relation "measure (\<lambda>x. 2 * nat \<lceil>1 / x\<rceil> + nat \<lfloor>x\<rfloor>)")
  show "wf (measure (\<lambda>x. 2 * nat \<lceil>1 / x\<rceil> + nat \<lfloor>x\<rfloor>))" by simp
next
  fix x :: real
  assume "\<not> x \<le> 0" and big: "2 \<le> x"
  have a: "\<lfloor>x / 2\<rfloor> < \<lfloor>x\<rfloor>"
  proof -
    have "x / 2 < real_of_int \<lfloor>x\<rfloor>"
    proof -
      have "x / 2 \<le> x - 1" using big by simp
      also have "\<dots> < real_of_int \<lfloor>x\<rfloor>" by linarith
      finally show ?thesis .
    qed
    then show ?thesis by (simp add: floor_less_iff)
  qed
  have b: "0 \<le> \<lfloor>x / 2\<rfloor>" using big by simp
  have c: "\<lceil>1 / (x / 2)\<rceil> = 1" using big by (simp add: ceiling_eq_iff)
  have d: "\<lceil>1 / x\<rceil> = 1" using big by (simp add: ceiling_eq_iff)
  from a b have "nat \<lfloor>x / 2\<rfloor> < nat \<lfloor>x\<rfloor>" by linarith
  then show "(x / 2, x) \<in> measure (\<lambda>x. 2 * nat \<lceil>1 / x\<rceil> + nat \<lfloor>x\<rfloor>)"
    unfolding in_measure c d by linarith
next
  fix x :: real
  assume pos: "\<not> x \<le> 0" and "\<not> 2 \<le> x" and small: "x < 1"
  have y: "1 < 1 / x" using pos small by simp
  have a: "\<lceil>1 / (x * 2)\<rceil> < \<lceil>1 / x\<rceil>"
  proof -
    have "1 / (x * 2) = (1 / x) / 2" by simp
    also have "\<dots> \<le> real_of_int \<lceil>1 / x\<rceil> / 2" by (simp add: divide_right_mono)
    finally have "\<lceil>1 / (x * 2)\<rceil> \<le> \<lceil>real_of_int \<lceil>1 / x\<rceil> / 2\<rceil>" by (rule ceiling_mono)
    moreover have "2 \<le> \<lceil>1 / x\<rceil>" using y by (simp add: le_ceiling_iff)
    ultimately show ?thesis by linarith
  qed
  have b: "0 < \<lceil>1 / (x * 2)\<rceil>" using pos by (simp add: less_ceiling_iff)
  have c: "\<lfloor>x\<rfloor> = 0" using pos small by (simp add: floor_eq_iff)
  have d: "\<lfloor>x * 2\<rfloor> \<le> 1" using small by (simp add: floor_le_iff)
  from a b have "nat \<lceil>1 / (x * 2)\<rceil> < nat \<lceil>1 / x\<rceil>" by linarith
  moreover from d have "nat \<lfloor>x * 2\<rfloor> \<le> 1" by linarith
  ultimately show "(x * 2, x) \<in> measure (\<lambda>x. 2 * nat \<lceil>1 / x\<rceil> + nat \<lfloor>x\<rfloor>)"
    unfolding in_measure c by linarith
qed

declare binade.simps [simp del]

text \<open>The integer nearest to \<open>y\<close>, the even one of two that are equally near.\<close>

definition round_even :: "real \<Rightarrow> int" where
  "round_even y =
     (let f = \<lfloor>y\<rfloor>; r = y - real_of_int f
      in if r < 1 / 2 then f
         else if 1 / 2 < r then f + 1
         else if even f then f else f + 1)"

text \<open>\<open>x \<times> 2^e\<close> for an integer exponent.\<close>

definition scale2 :: "int \<Rightarrow> real \<Rightarrow> real" where
  "scale2 e x = (if 0 \<le> e then x * 2 ^ nat e else x / 2 ^ nat (- e))"

text \<open>The double nearest to \<open>x\<close>: the rounding of every arithmetic operation.\<close>

definition fl :: "real \<Rightarrow> real" where
  "fl x =
     (if x = 0 then 0
      else (let e = binade \<bar>x\<bar> - 52
            in scale2 e (real_of_int (round_even (scale2 (- e) x)))))"

subsection \<open>The helpers of \<open>./util\<close>\<close>

text \<open>
  Modelled from the spec: \<open>getScrollPercentage\<close> of \<open>./util\<close>, which is not among the
  sources. The spec's Percentage Mapper turns the scroll offset, the scrollable height and
  the viewport height into a scalar in \<open>[0,1]\<close> saying how far through the scrollable range
  the viewport sits, and is \<open>0\<close> where the scrollable height equals the viewport height.
  The quotient of the offset by the scrollable range is cut to \<open>[0,1]\<close>, the range the
  spec states; for an offset inside the scrollable range the cut changes nothing.
\<close>

definition getScrollPercentage :: "element \<Rightarrow> real" where
  "getScrollPercentage el =
     (let scrollTopHeight = scrollHeight el - clientHeight el
      in if scrollTopHeight = 0 then 0
         else max 0 (min 1 (el_scrollTop el / scrollTopHeight)))"

text \<open>
  Modelled from the spec: \<open>getLocationItem\<close> of \<open>./util\<close>, which is not among the
  sources. The spec's Location Estimator returns \<open>index = floor(percentage \<times> N)\<close> clamped to
  \<open>[0, N - 1]\<close> and an offset fraction in \<open>[0,1)\<close>, the remainder of
  \<open>percentage \<times> N\<close> beyond the index. The fraction is what \<open>percentage \<times> N\<close> has
  beyond its floor: that is in \<open>[0,1)\<close> always, and it is the remainder beyond the index
  whenever the floor is not cut. At percentage 1 the index is cut to \<open>N - 1\<close> and the
  fraction is 0.
\<close>

definition getLocationItem :: "real \<Rightarrow> nat \<Rightarrow> int \<times> real" where
  "getLocationItem ptg n =
     (let index = min (int n - 1) (max 0 \<lfloor>ptg * real n\<rfloor>)
      in (index, ptg * real n - real_of_int \<lfloor>ptg * real n\<rfloor>))"

text \<open>
  Modelled from the spec: \<open>getScrollPercentage\<close> of \<open>./util\<close> in rounded arithmetic.
  The quotient of the Percentage Mapper takes two operations, the scrollable range
  \<open>scrollHeight - clientHeight\<close> and the division of the offset by it; each is followed
  by the rounding \<open>rnd\<close>. The comparison and the cut to \<open>[0,1]\<close> do not round.
\<close>

definition getScrollPercentage_rnd :: "(real \<Rightarrow> real) \<Rightarrow> element \<Rightarrow> real" where
  "getScrollPercentage_rnd rnd el =
     (let scrollTopHeight = rnd (scrollHeight el - clientHeight el)
      in if scrollTopHeight = 0 then 0
         else max 0 (min 1 (rnd (el_scrollTop el / scrollTopHeight))))"

text \<open>
  Modelled from the spec: \<open>getLocationItem\<close> of \<open>./util\<close> in rounded arithmetic. The
  product \<open>percentage \<times> N\<close> is rounded once and both results are read off the rounded
  product: the index is its floor, clamped, and the fraction is what it has beyond its
  floor.
\<close>

definition getLocationItem_rnd :: "(real \<Rightarrow> real) \<Rightarrow> real \<Rightarrow> nat \<Rightarrow> int \<times> real" where
  "getLocationItem_rnd rnd ptg n =
     (let x = rnd (ptg * real n);
          index = min (int n - 1) (max 0 \<lfloor>x\<rfloor>)
      in (index, rnd (x - real_of_int \<lfloor>x\<rfloor>)))"

subsection \<open>The methods of the component\<close>

definition getItemKey :: "ListProps \<Rightarrow> int \<Rightarrow> jsval" where
  "getItemKey props index =
     (let it = js_index (dataSource props) index
      in case itemKey props of
           None \<Rightarrow> JNum index
         | Some k \<Rightarrow> (if truthy it \<and> k \<noteq> [] then get_field it k else JNum index))"

text \<open>
  \<open>onScroll\<close>. It fails with \<open>TypeError\<close> when no node is attached to \<open>listRef\<close>,
  returns the instance as it is when the scroll offset is the one stored in the state, and
  otherwise stores the new estimate. \<open>height / itemHeight\<close> is \<open>NaN\<close> for an absent
  height and not finite for a zero item height.
\<close>

definition onScroll :: "ListProps \<Rightarrow> Instance \<Rightarrow> fault + Instance" where
  "onScroll props inst =
     (case listRef inst of
        None \<Rightarrow> Inl TypeError
      | Some el \<Rightarrow>
          if Some (el_scrollTop el) = scrollTop (state inst) then Inr inst
          else
            (case height props of
               None \<Rightarrow> Inl NonFinite
             | Some h \<Rightarrow>
                 if itemHeight props = 0 then Inl NonFinite
                 else
                   (let ptg = getScrollPercentage el;
                        (index, offsetPtg) = getLocationItem ptg (length (dataSource props));
                        visibleCount = \<lceil>h / itemHeight props\<rceil>;
                        beforeCount = \<lceil>ptg * real_of_int visibleCount\<rceil>;
                        afterCount = \<lceil>(1 - ptg) * real_of_int visibleCount\<rceil>
                    in Inr (inst\<lparr>state := (state inst)
                         \<lparr>status := MEASURE_START,
                          scrollTop := Some (el_scrollTop el),
                          scrollPtg := ptg,
                          itemIndex := index,
                          itemOffsetPtg := offsetPtg,
                          startIndex := max 0 (index - beforeCount),
                          endIndex :=
                            min (int (length (dataSource props)) - 1) (index + afterCount)\<rparr>\<rparr>))))"

text \<open>
  \<open>componentDidMount\<close>: sets the scroll offset of the attached node to \<open>0\<close> and calls
  \<open>onScroll\<close>. Writing \<open>scrollTop\<close> of \<open>null\<close> throws.
\<close>

definition componentDidMount :: "ListProps \<Rightarrow> Instance \<Rightarrow> fault + Instance" where
  "componentDidMount props inst =
     (case listRef inst of
        None \<Rightarrow> Inl TypeError
      | Some el \<Rightarrow> onScroll props (inst\<lparr>listRef := Some (el\<lparr>el_scrollTop := 0\<rparr>)\<rparr>))"

text \<open>
  The first loop of \<open>componentDidUpdate\<close>: for each index of the window the committed
  height of the node rendered under its key is stored. \<open>getNodeHeight\<close> of \<open>./util\<close>
  and the nodes collected in \<open>this.itemElements\<close> belong to the host; they enter as the
  parameter \<open>nodeHeight\<close>, the value of \<open>getNodeHeight(this.itemElements[eleKey])\<close> for
  each key.
\<close>

function measure_loop ::
  "ListProps \<Rightarrow> (string \<Rightarrow> real) \<Rightarrow> int \<Rightarrow> int \<Rightarrow> (string \<rightharpoonup> real) \<Rightarrow> (string \<rightharpoonup> real)"
where
  "measure_loop props nodeHeight index endIdx heights =
     (if index \<le> endIdx then
        (let eleKey = prop_name (getItemKey props index)
         in measure_loop props nodeHeight (index + 1) endIdx
              (heights(eleKey \<mapsto> nodeHeight eleKey)))
      else heights)"
  by pat_completeness auto
termination
  by (relation "measure (\<lambda>(props, nodeHeight, index, endIdx, heights). nat (endIdx + 1 - index))")
    auto

declare measure_loop.simps [simp del]

text \<open>The second loop: from \<open>itemIndex - 1\<close> down to \<open>startIndex\<close>.\<close>

function walk_back ::
  "ListProps \<Rightarrow> (string \<rightharpoonup> real) \<Rightarrow> int \<Rightarrow> int \<Rightarrow> real \<Rightarrow> real"
where
  "walk_back props heights index startIdx itemTop =
     (if index \<ge> startIdx then
        walk_back props heights (index - 1) startIdx
          (itemTop - height_or_0 heights (prop_name (getItemKey props index)))
      else itemTop)"
  by pat_completeness auto
termination
  by (relation "measure (\<lambda>(props, heights, index, startIdx, itemTop). nat (index + 1 - startIdx))")
    auto

declare walk_back.simps [simp del]

text \<open>
  \<open>componentDidUpdate\<close>. In phase \<open>MEASURE_START\<close> it measures the window, computes the
  top of the first rendered item and moves to \<open>MEASURE_DONE\<close>. When the length of the data
  source has changed it writes a line to the console, and nothing else. The top is computed
  in exact arithmetic here; \<open>measure_window_rnd\<close> below computes it with the rounding of
  the source.
\<close>

definition measure_window :: "ListProps \<Rightarrow> (string \<Rightarrow> real) \<Rightarrow> Instance \<Rightarrow> fault + Instance" where
  "measure_window props nodeHeight inst =
     (let st = state inst;
          heights = measure_loop props nodeHeight (startIndex st) (endIndex st)
                      (itemElementHeights inst)
      in case listRef inst of
           None \<Rightarrow> Inl TypeError
         | Some el \<Rightarrow>
             (let locatedItemHeight =
                    height_or_0 heights (prop_name (getItemKey props (itemIndex st)));
                  locatedItemTop = scrollPtg st * clientHeight el;
                  locatedItemOffset = itemOffsetPtg st * locatedItemHeight;
                  locatedItemMergedTop = el_scrollTop el + locatedItemTop - locatedItemOffset;
                  itemTop = walk_back props heights (itemIndex st - 1) (startIndex st)
                          locatedItemMergedTop
              in Inr (inst\<lparr>itemElementHeights := heights,
                           state := st\<lparr>status := MEASURE_DONE, startItemTop := itemTop\<rparr>\<rparr>)))"

definition componentDidUpdate ::
  "ListProps \<Rightarrow> ListProps \<Rightarrow> (string \<Rightarrow> real) \<Rightarrow> Instance \<Rightarrow> fault + Instance"
where
  "componentDidUpdate prevProps props nodeHeight inst =
     (case (if status (state inst) = MEASURE_START then measure_window props nodeHeight inst
            else Inr inst) of
        Inl e \<Rightarrow> Inl e
      | Inr inst' \<Rightarrow>
          (if length (dataSource prevProps) \<noteq> length (dataSource props)
           then Inr (inst'\<lparr>console := console inst' @ [''!!!!!!'']\<rparr>)
           else Inr inst'))"

text \<open>
  \<open>renderChildren\<close>: each item of the list with the key of its index; the node that the
  caller's render function makes of the item is not looked into.
\<close>

definition renderChildren :: "ListProps \<Rightarrow> item list \<Rightarrow> int \<Rightarrow> (jsval \<times> item) list" where
  "renderChildren props list startIdx =
     map (\<lambda>(index, it). (getItemKey props (startIdx + int index), it)) (enumerate 0 list)"

text \<open>
  The test of \<open>render\<close>: "Render pure list if not set height or height is enough for all
  items".
\<close>

definition pure_list :: "ListProps \<Rightarrow> bool" where
  "pure_list props =
     (case height props of
        None \<Rightarrow> True
      | Some h \<Rightarrow> real (length (dataSource props)) * itemHeight props \<le> h)"

definition render :: "ListProps \<Rightarrow> ListState \<Rightarrow> Rendered" where
  "render props st =
     (if pure_list props then
        \<lparr>r_onScroll = False, r_ref = False, filler_height = height props,
         filler_offset = None,
         r_children = renderChildren props (dataSource props) 0\<rparr>
      else
        \<lparr>r_onScroll = True, r_ref = True,
         filler_height = Some (real (length (dataSource props)) * itemHeight props),
         filler_offset = Some (if status st = MEASURE_DONE then startItemTop st else 0),
         r_children =
           renderChildren props
             (js_slice (dataSource props) (startIndex st) (endIndex st + 1)) (startIndex st)\<rparr>)"

text \<open>
  Mounting, as the host does it: the first render with the initial state, the node
  \<open>host\<close> attached to \<open>listRef\<close> if the render asked for it, then
  \<open>componentDidMount\<close>.
\<close>

definition mount :: "ListProps \<Rightarrow> element \<Rightarrow> fault + Instance" where
  "mount props host =
     (let r = render props initial_state
      in componentDidMount props
           \<lparr>state = initial_state,
            listRef = (if r_ref r then Some host else None),
            itemElementHeights = Map.empty,
            console = []\<rparr>)"

subsection \<open>The methods in rounded arithmetic\<close>

text \<open>
  \<open>onScroll\<close> with the rounding \<open>rnd\<close> after each operation on doubles that the source
  performs: the quotient \<open>height / itemHeight\<close>, the product
  \<open>scrollPtg * visibleCount\<close>, the difference \<open>1 - scrollPtg\<close> and its product with
  \<open>visibleCount\<close>. The sums and differences of indices are operations on integers far
  below \<open>2^53\<close>, which doubles perform exactly.
\<close>

definition onScroll_rnd :: "(real \<Rightarrow> real) \<Rightarrow> ListProps \<Rightarrow> Instance \<Rightarrow> fault + Instance" where
  "onScroll_rnd rnd props inst =
     (case listRef inst of
        None \<Rightarrow> Inl TypeError
      | Some el \<Rightarrow>
          if Some (el_scrollTop el) = scrollTop (state inst) then Inr inst
          else
            (case height props of
               None \<Rightarrow> Inl NonFinite
             | Some h \<Rightarrow>
                 if itemHeight props = 0 then Inl NonFinite
                 else
                   (let ptg = getScrollPercentage_rnd rnd el;
                        (index, offsetPtg) =
                          getLocationItem_rnd rnd ptg (length (dataSource props));
                        visibleCount = \<lceil>rnd (h / itemHeight props)\<rceil>;
                        beforeCount = \<lceil>rnd (ptg * real_of_int visibleCount)\<rceil>;
                        afterCount = \<lceil>rnd (rnd (1 - ptg) * real_of_int visibleCount)\<rceil>
                    in Inr (inst\<lparr>state := (state inst)
                         \<lparr>status := MEASURE_START,
                          scrollTop := Some (el_scrollTop el),
                          scrollPtg := ptg,
                          itemIndex := index,
                          itemOffsetPtg := offsetPtg,
                          startIndex := max 0 (index - beforeCount),
                          endIndex :=
                            min (int (length (dataSource props)) - 1) (index + afterCount)\<rparr>\<rparr>))))"

text \<open>The second loop of \<open>componentDidUpdate\<close>: each \<open>startItemTop -= ...\<close> rounds.\<close>

function walk_back_rnd ::
  "(real \<Rightarrow> real) \<Rightarrow> ListProps \<Rightarrow> (string \<rightharpoonup> real) \<Rightarrow> int \<Rightarrow> int \<Rightarrow> real \<Rightarrow> real"
where
  "walk_back_rnd rnd props heights index startIdx itemTop =
     (if index \<ge> startIdx then
        walk_back_rnd rnd props heights (index - 1) startIdx
          (rnd (itemTop - height_or_0 heights (prop_name (getItemKey props index))))
      else itemTop)"
  by pat_completeness auto
termination
  by (relation
      "measure (\<lambda>(rnd, props, heights, index, startIdx, itemTop). nat (index + 1 - startIdx))")
    auto

declare walk_back_rnd.simps [simp del]

text \<open>
  \<open>componentDidUpdate\<close> with the rounding after each operation of the lines that compute
  the top offset: the products \<open>scrollPtg * clientHeight\<close> and
  \<open>itemOffsetPtg * locatedItemHeight\<close>, then the sum and the difference of
  \<open>scrollTop + locatedItemTop - locatedItemOffset\<close>, in this order, then the loop.
\<close>

definition measure_window_rnd ::
  "(real \<Rightarrow> real) \<Rightarrow> ListProps \<Rightarrow> (string \<Rightarrow> real) \<Rightarrow> Instance \<Rightarrow> fault + Instance"
where
  "measure_window_rnd rnd props nodeHeight inst =
     (let st = state inst;
          heights = measure_loop props nodeHeight (startIndex st) (endIndex st)
                      (itemElementHeights inst)
      in case listRef inst of
           None \<Rightarrow> Inl TypeError
         | Some el \<Rightarrow>
             (let locatedItemHeight =
                    height_or_0 heights (prop_name (getItemKey props (itemIndex st)));
                  locatedItemTop = rnd (scrollPtg st * clientHeight el);
                  locatedItemOffset = rnd (itemOffsetPtg st * locatedItemHeight);
                  locatedItemMergedTop =
                    rnd (rnd (el_scrollTop el + locatedItemTop) - locatedItemOffset);
                  itemTop = walk_back_rnd rnd props heights (itemIndex st - 1) (startIndex st)
                          locatedItemMergedTop
              in Inr (inst\<lparr>itemElementHeights := heights,
                           state := st\<lparr>status := MEASURE_DONE, startItemTop := itemTop\<rparr>\<rparr>)))"

definition componentDidUpdate_rnd ::
  "(real \<Rightarrow> real) \<Rightarrow> ListProps \<Rightarrow> ListProps \<Rightarrow> (string \<Rightarrow> real) \<Rightarrow> Instance
    \<Rightarrow> fault + Instance"
where
  "componentDidUpdate_rnd rnd prevProps props nodeHeight inst =
     (case (if status (state inst) = MEASURE_START
            then measure_window_rnd rnd props nodeHeight inst
            else Inr inst) of
        Inl e \<Rightarrow> Inl e
      | Inr inst' \<Rightarrow>
          (if length (dataSource prevProps) \<noteq> length (dataSource props)
           then Inr (inst'\<lparr>console := console inst' @ [''!!!!!!'']\<rparr>)
           else Inr inst'))"

subsection \<open>Driving the component\<close>

text \<open>
  The host runs the methods one after the other; a method that fails ends the run.
\<close>

definition bind_fault :: "fault + 'a \<Rightarrow> ('a \<Rightarrow> fault + 'b) \<Rightarrow> fault + 'b" where
  "bind_fault r f = (case r of Inl e \<Rightarrow> Inl e | Inr x \<Rightarrow> f x)"

definition state_of :: "fault + Instance \<Rightarrow> ListState option" where
  "state_of r = (case r of Inl e \<Rightarrow> None | Inr inst \<Rightarrow> Some (state inst))"

text \<open>The user scrolls the attached node to the offset \<open>y\<close> and the listener runs.\<close>

definition scroll_to :: "ListProps \<Rightarrow> real \<Rightarrow> Instance \<Rightarrow> fault + Instance" where
  "scroll_to props y inst =
     onScroll props
       (inst\<lparr>listRef :=
          (case listRef inst of None \<Rightarrow> None | Some el \<Rightarrow> Some (el\<lparr>el_scrollTop := y\<rparr>))\<rparr>)"

text \<open>A layout in which every rendered node has the same height.\<close>

definition uniform_layout :: "real \<Rightarrow> string \<Rightarrow> real" where
  "uniform_layout h k = h"

text \<open>
  A list of \<open>n\<close> items with the default item height in a viewport of height \<open>h\<close>, and
  the node the host creates for it: the filler reserves the content height.
\<close>

definition plain_props :: "nat \<Rightarrow> real option \<Rightarrow> ListProps" where
  "plain_props n h =
     \<lparr>dataSource = replicate n (Obj []), height = h, itemHeight = defaultItemHeight,
      itemKey = None\<rparr>"

definition plain_host :: "nat \<Rightarrow> real \<Rightarrow> element" where
  "plain_host n h =
     \<lparr>el_scrollTop = 0, scrollHeight = real n * defaultItemHeight, clientHeight = h\<rparr>"

text \<open>The instance after the first commit of a render that attached the node \<open>host\<close>.\<close>

definition attached :: "element \<Rightarrow> Instance" where
  "attached host =
     \<lparr>state = initial_state, listRef = Some host, itemElementHeights = Map.empty,
      console = []\<rparr>"

text \<open>
  A full cycle with unchanged props: the event, the render it asks for, and the commit of
  that render.
\<close>

definition mount_cycle :: "ListProps \<Rightarrow> (string \<Rightarrow> real) \<Rightarrow> element \<Rightarrow> fault + Instance" where
  "mount_cycle props nodeHeight host =
     bind_fault (mount props host) (componentDidUpdate props props nodeHeight)"

definition scroll_cycle ::
  "ListProps \<Rightarrow> (string \<Rightarrow> real) \<Rightarrow> real \<Rightarrow> Instance \<Rightarrow> fault + Instance"
where
  "scroll_cycle props nodeHeight y inst =
     bind_fault (scroll_to props y inst) (componentDidUpdate props props nodeHeight)"

definition scrolled_host :: "nat \<Rightarrow> real \<Rightarrow> real \<Rightarrow> element" where
  "scrolled_host n h y = (plain_host n h)\<lparr>el_scrollTop := y\<rparr>"

text \<open>The state that \<open>onScroll\<close> stores for an event it accepts, written out.\<close>

definition estimate :: "ListProps \<Rightarrow> real \<Rightarrow> element \<Rightarrow> ListState \<Rightarrow> ListState" where
  "estimate props h el st =
     st\<lparr>status := MEASURE_START,
        scrollTop := Some (el_scrollTop el),
        scrollPtg := getScrollPercentage el,
        itemIndex := fst (getLocationItem (getScrollPercentage el) (length (dataSource props))),
        itemOffsetPtg :=
          snd (getLocationItem (getScrollPercentage el) (length (dataSource props))),
        startIndex :=
          max 0 (fst (getLocationItem (getScrollPercentage el) (length (dataSource props)))
            - \<lceil>getScrollPercentage el * real_of_int \<lceil>h / itemHeight props\<rceil>\<rceil>),
        endIndex :=
          min (int (length (dataSource props)) - 1)
            (fst (getLocationItem (getScrollPercentage el) (length (dataSource props)))
              + \<lceil>(1 - getScrollPercentage el) * real_of_int \<lceil>h / itemHeight props\<rceil>\<rceil>)\<rparr>"

text \<open>
  An instance in phase \<open>MEASURE_START\<close>: ten items, scrolled to the offset 60, the
  estimate stored and not yet measured.
\<close>

definition estimated :: Instance where
  "estimated =
     \<lparr>state = \<lparr>status = MEASURE_START, scrollTop = Some 60, scrollPtg = 1 / 2, itemIndex = 5,
               itemOffsetPtg = 0, startIndex = 4, endIndex = 6, startItemTop = 0\<rparr>,
      listRef = Some (scrolled_host 10 30 60), itemElementHeights = Map.empty, console = []\<rparr>"

text \<open>A data source with a key field and a hole in the middle.\<close>

definition keyed_props :: ListProps where
  "keyed_props =
     \<lparr>dataSource = [Obj [(''id'', JStr ''a'')], Falsy, Obj [(''id'', JStr ''c'')]],
      height = Some 30, itemHeight = defaultItemHeight, itemKey = Some ''id''\<rparr>"

section \<open>Properties\<close>

lemmas run_defs =
  mount_def mount_cycle_def scroll_cycle_def scroll_to_def bind_fault_def state_of_def
  componentDidMount_def componentDidUpdate_def measure_window_def onScroll_def render_def
  pure_list_def renderChildren_def getItemKey_def getLocationItem_def getScrollPercentage_def
  js_index_def js_slice_def truthy_def get_field_def prop_name_def height_or_0_def
  initial_state_def attached_def plain_props_def plain_host_def scrolled_host_def
  estimated_def keyed_props_def
  uniform_layout_def defaultItemHeight_def

subsection \<open>The estimate of the window\<close>

lemma visible_nonneg:
  assumes "0 \<le> (h::real)" "0 < ih"
  shows "0 \<le> \<lceil>h / ih\<rceil>"
proof -
  have "0 \<le> h / ih" using assms by simp
  then show ?thesis by (simp add: zero_le_ceiling)
qed

lemma count_nonneg:
  assumes "0 \<le> (q::real)" "0 \<le> (v::int)"
  shows "0 \<le> \<lceil>q * real_of_int v\<rceil>"
proof -
  have "0 \<le> q * real_of_int v" using assms by simp
  then show ?thesis by (simp add: zero_le_ceiling)
qed

lemma counts_cover:
  fixes p :: real and v :: int
  shows "v \<le> \<lceil>p * real_of_int v\<rceil> + \<lceil>(1 - p) * real_of_int v\<rceil>"
proof -
  have "real_of_int v = p * real_of_int v + (1 - p) * real_of_int v"
    by (simp add: algebra_simps)
  also have "\<dots> \<le> real_of_int \<lceil>p * real_of_int v\<rceil> + real_of_int \<lceil>(1 - p) * real_of_int v\<rceil>"
    by (intro add_mono le_of_int_ceiling)
  finally have "real_of_int v \<le> real_of_int (\<lceil>p * real_of_int v\<rceil> + \<lceil>(1 - p) * real_of_int v\<rceil>)"
    by simp
  then show ?thesis by (simp only: of_int_le_iff)
qed

lemma index_le_product:
  assumes "0 \<le> p"
  shows "real_of_int (fst (getLocationItem p n)) \<le> p * real n"
proof -
  have "0 \<le> p * real n" using assms by simp
  then have "0 \<le> \<lfloor>p * real n\<rfloor>" by simp
  then have "fst (getLocationItem p n) \<le> \<lfloor>p * real n\<rfloor>" by (simp add: getLocationItem_def Let_def)
  then have "real_of_int (fst (getLocationItem p n)) \<le> real_of_int \<lfloor>p * real n\<rfloor>" by (simp only: of_int_le_iff)
  also have "\<dots> \<le> p * real n" by (rule of_int_floor_le)
  finally show ?thesis .
qed

lemma index_cases:
  assumes "0 \<le> p"
  shows "fst (getLocationItem p n) = int n - 1 \<or> fst (getLocationItem p n) = \<lfloor>p * real n\<rfloor>"
proof -
  have "0 \<le> p * real n" using assms by simp
  then have "0 \<le> \<lfloor>p * real n\<rfloor>" by simp
  then show ?thesis by (auto simp: getLocationItem_def Let_def min_def max_def)
qed

lemma before_le_index_succ:
  fixes p :: real and v :: int and n :: nat
  assumes "0 \<le> p" "p \<le> 1" "0 \<le> v" "v \<le> int n"
  shows "\<lceil>p * real_of_int v\<rceil> \<le> fst (getLocationItem p n) + 1"
  using index_cases [OF assms(1), of n]
proof
  assume top: "fst (getLocationItem p n) = int n - 1"
  have "p * real_of_int v \<le> 1 * real_of_int v"
    using assms(2,3) by (intro mult_right_mono) simp_all
  then have "p * real_of_int v \<le> real_of_int v" by simp
  then have "\<lceil>p * real_of_int v\<rceil> \<le> v" by (simp add: ceiling_le_iff)
  with assms(4) top show ?thesis by simp
next
  assume fl: "fst (getLocationItem p n) = \<lfloor>p * real n\<rfloor>"
  have "real_of_int v \<le> real n" using assms(4) by linarith
  then have "p * real_of_int v \<le> p * real n"
    using assms(1) by (intro mult_left_mono)
  then have "\<lfloor>p * real_of_int v\<rfloor> \<le> \<lfloor>p * real n\<rfloor>" by (rule floor_mono)
  moreover have "\<lceil>p * real_of_int v\<rceil> \<le> \<lfloor>p * real_of_int v\<rfloor> + 1"
    using ceiling_diff_floor_le_1 [of "p * real_of_int v"] by linarith
  ultimately show ?thesis using fl by linarith
qed

lemma after_le_rest:
  fixes p :: real and v :: int and n :: nat
  assumes "0 \<le> p" "p \<le> 1" "v \<le> int n"
  shows "\<lceil>(1 - p) * real_of_int v\<rceil> \<le> int n - fst (getLocationItem p n)"
proof -
  have "real_of_int v \<le> real n" using assms(3) by linarith
  then have "(1 - p) * real_of_int v \<le> (1 - p) * real n"
    using assms(2) by (intro mult_left_mono) simp_all
  also have "\<dots> = real n - p * real n" by (simp add: algebra_simps)
  also have "\<dots> \<le> real n - real_of_int (fst (getLocationItem p n))"
    using index_le_product [OF assms(1), of n] by linarith
  also have "\<dots> = real_of_int (int n - fst (getLocationItem p n))" by simp
  finally show ?thesis by (simp only: ceiling_le_iff)
qed

lemma index_le_before:
  fixes p :: real and v :: int and n :: nat
  assumes "0 \<le> p" "int n \<le> v"
  shows "fst (getLocationItem p n) \<le> \<lceil>p * real_of_int v\<rceil>"
proof -
  have "real n \<le> real_of_int v" using assms(2) by linarith
  then have "p * real n \<le> p * real_of_int v"
    using assms(1) by (intro mult_left_mono)
  with index_le_product [OF assms(1), of n]
  have "real_of_int (fst (getLocationItem p n)) \<le> p * real_of_int v" by linarith
  also have "\<dots> \<le> real_of_int \<lceil>p * real_of_int v\<rceil>" by (rule le_of_int_ceiling)
  finally show ?thesis by (simp only: of_int_le_iff)
qed

lemma rest_le_after:
  fixes p :: real and v :: int and n :: nat
  assumes "0 \<le> p" "p \<le> 1" "int n \<le> v"
  shows "int n - 1 - fst (getLocationItem p n) \<le> \<lceil>(1 - p) * real_of_int v\<rceil>"
  using index_cases [OF assms(1), of n]
proof
  assume top: "fst (getLocationItem p n) = int n - 1"
  have "0 \<le> v" using assms(3) by linarith
  then have "0 \<le> \<lceil>(1 - p) * real_of_int v\<rceil>"
    using assms(2) by (intro count_nonneg) simp_all
  with top show ?thesis by simp
next
  assume fl: "fst (getLocationItem p n) = \<lfloor>p * real n\<rfloor>"
  have "real n \<le> real_of_int v" using assms(3) by linarith
  then have "(1 - p) * real n \<le> (1 - p) * real_of_int v"
    using assms(2) by (intro mult_left_mono) simp_all
  moreover have "p * real n < real_of_int \<lfloor>p * real n\<rfloor> + 1" by linarith
  moreover have "(1 - p) * real n = real n - p * real n" by (simp add: algebra_simps)
  ultimately have "real n - 1 - real_of_int (fst (getLocationItem p n)) < (1 - p) * real_of_int v"
    using fl by linarith
  also have "\<dots> \<le> real_of_int \<lceil>(1 - p) * real_of_int v\<rceil>" by (rule le_of_int_ceiling)
  finally have "real_of_int (int n - 1 - fst (getLocationItem p n)) < real_of_int \<lceil>(1 - p) * real_of_int v\<rceil>"
    by simp
  then show ?thesis by (simp only: of_int_less_iff)
qed

lemma window_size:
  fixes p :: real and v :: int and n :: nat
  assumes "0 \<le> p" "p \<le> 1" "0 \<le> v" "0 < n"
  shows "min v (int n) \<le>
    min (int n - 1) (fst (getLocationItem p n) + \<lceil>(1 - p) * real_of_int v\<rceil>)
      - max 0 (fst (getLocationItem p n) - \<lceil>p * real_of_int v\<rceil>) + 1"
proof (cases "v \<le> int n")
  case True
  have idx: "0 \<le> fst (getLocationItem p n)" "fst (getLocationItem p n) \<le> int n - 1"
    using assms(4) by (simp_all add: getLocationItem_def Let_def)
  note before_le_index_succ [OF assms(1,2,3) True] after_le_rest [OF assms(1,2) True]
    counts_cover [of v p] idx
  then show ?thesis by (simp add: min_def max_def)
next
  case False
  then have nv: "int n \<le> v" by simp
  have idx: "0 \<le> fst (getLocationItem p n)" "fst (getLocationItem p n) \<le> int n - 1"
    using assms(4) by (simp_all add: getLocationItem_def Let_def)
  note index_le_before [OF assms(1) nv] rest_le_after [OF assms(1,2) nv] idx
  then show ?thesis by (simp add: min_def max_def)
qed

lemma measure_loop_lookup:
  "measure_loop props nh i e hs k =
     (if \<exists>j. i \<le> j \<and> j \<le> e \<and> prop_name (getItemKey props j) = k then Some (nh k)
      else hs k)"
proof (induction props nh i e hs rule: measure_loop.induct)
  case (1 props nodeHeight index endIdx heights)
  show ?case
  proof (cases "index \<le> endIdx")
    case False
    then have none: "\<not> (\<exists>j. index \<le> j \<and> j \<le> endIdx \<and> prop_name (getItemKey props j) = k)"
      by auto
    have "measure_loop props nodeHeight index endIdx heights k = heights k"
      using False by (subst measure_loop.simps) simp
    then show ?thesis by (simp only: none if_False)
  next
    case True
    let ?key = "prop_name (getItemKey props index)"
    have step: "measure_loop props nodeHeight index endIdx heights k =
        measure_loop props nodeHeight (index + 1) endIdx (heights(?key \<mapsto> nodeHeight ?key)) k"
      using True by (subst measure_loop.simps) (simp add: Let_def)
    have ih: "measure_loop props nodeHeight (index + 1) endIdx (heights(?key \<mapsto> nodeHeight ?key)) k =
        (if \<exists>j. index + 1 \<le> j \<and> j \<le> endIdx \<and> prop_name (getItemKey props j) = k
         then Some (nodeHeight k) else (heights(?key \<mapsto> nodeHeight ?key)) k)"
      using "1.IH" [OF True refl] .
    have split: "(\<exists>j. index \<le> j \<and> j \<le> endIdx \<and> prop_name (getItemKey props j) = k) \<longleftrightarrow>
        ?key = k \<or> (\<exists>j. index + 1 \<le> j \<and> j \<le> endIdx \<and> prop_name (getItemKey props j) = k)"
      (is "?L \<longleftrightarrow> ?R")
    proof
      assume ?L
      then obtain j where j: "index \<le> j" "j \<le> endIdx" "prop_name (getItemKey props j) = k"
        by blast
      show ?R
      proof (cases "j = index")
        case True
        with j(3) show ?thesis by simp
      next
        case False
        with j(1) have "index + 1 \<le> j" by simp
        with j(2,3) show ?thesis by blast
      qed
    next
      assume ?R
      then show ?L
      proof
        assume "?key = k"
        with True show ?L by blast
      next
        assume "\<exists>j. index + 1 \<le> j \<and> j \<le> endIdx \<and> prop_name (getItemKey props j) = k"
        then obtain j where "index + 1 \<le> j" "j \<le> endIdx" "prop_name (getItemKey props j) = k"
          by blast
        then have "index \<le> j \<and> j \<le> endIdx \<and> prop_name (getItemKey props j) = k" by simp
        then show ?L by blast
      qed
    qed
    show ?thesis
      unfolding step ih split by auto
  qed
qed

lemma measure_loop_window:
  assumes "i \<le> j" "j \<le> e"
  shows "height_or_0 (measure_loop props nh i e hs) (prop_name (getItemKey props j)) =
    nh (prop_name (getItemKey props j))"
proof -
  have "\<exists>j'. i \<le> j' \<and> j' \<le> e \<and> prop_name (getItemKey props j') = prop_name (getItemKey props j)"
    using assms by blast
  then show ?thesis by (simp add: measure_loop_lookup height_or_0_def)
qed

lemma walk_back_uniform:
  assumes "\<And>j. s \<le> j \<Longrightarrow> j \<le> i \<Longrightarrow> height_or_0 hs (prop_name (getItemKey props j)) = h"
    and "s \<le> i + 1"
  shows "walk_back props hs i s t = t - real_of_int (i + 1 - s) * h"
  using assms
proof (induction props hs i s t rule: walk_back.induct)
  case (1 props heights index startIdx itemTop)
  show ?case
  proof (cases "index \<ge> startIdx")
    case False
    with "1.prems"(2) have "index + 1 - startIdx = 0" by simp
    with False show ?thesis by (simp add: walk_back.simps)
  next
    case True
    have here: "height_or_0 heights (prop_name (getItemKey props index)) = h"
      using "1.prems"(1) True by simp
    have "walk_back props heights (index - 1) startIdx
            (itemTop - height_or_0 heights (prop_name (getItemKey props index))) =
          (itemTop - height_or_0 heights (prop_name (getItemKey props index)))
            - real_of_int (index - 1 + 1 - startIdx) * h"
      using True "1.prems"(1) by (intro "1.IH") simp_all
    then have "walk_back props heights index startIdx itemTop =
        itemTop - h - real_of_int (index - startIdx) * h"
      using True here by (subst walk_back.simps) simp
    also have "\<dots> = itemTop - real_of_int (index + 1 - startIdx) * h"
      by (simp add: algebra_simps)
    finally show ?thesis .
  qed
qed

lemma located_item_top_uniform:
  assumes "scrollHeight el = real n * ih"
    and "0 \<le> el_scrollTop el"
    and "el_scrollTop el < scrollHeight el - clientHeight el"
    and "0 < n"
  shows "el_scrollTop el + getScrollPercentage el * clientHeight el
           - snd (getLocationItem (getScrollPercentage el) n) * ih
         = real_of_int (fst (getLocationItem (getScrollPercentage el) n)) * ih"
proof -
  let ?p = "getScrollPercentage el"
  let ?d = "scrollHeight el - clientHeight el"
  have d: "0 < ?d" using assms(2,3) by linarith
  have q: "0 \<le> el_scrollTop el / ?d" "el_scrollTop el / ?d < 1"
    using d assms(2,3) by simp_all
  then have p: "?p = el_scrollTop el / ?d"
    using d by (simp add: getScrollPercentage_def Let_def)
  then have pd: "?p * ?d = el_scrollTop el" using d by simp
  note n = assms(4)
  have "0 \<le> ?p" using p q(1) by simp
  then have "0 \<le> ?p * real n" by simp
  then have lo: "0 \<le> \<lfloor>?p * real n\<rfloor>" by simp
  have "?p < 1" using p q(2) by simp
  then have "?p * real n < 1 * real n"
    using n by (intro mult_strict_right_mono) simp_all
  then have "\<lfloor>?p * real n\<rfloor> < int n" by (simp add: floor_less_iff)
  with lo have uncut: "fst (getLocationItem ?p n) = \<lfloor>?p * real n\<rfloor>"
    by (simp add: getLocationItem_def Let_def)
  have rest: "snd (getLocationItem ?p n) = ?p * real n - real_of_int (fst (getLocationItem ?p n))"
    unfolding uncut by (simp add: getLocationItem_def Let_def)
  have "el_scrollTop el + ?p * clientHeight el - snd (getLocationItem ?p n) * ih
      = el_scrollTop el - ?p * (real n * ih - clientHeight el)
          + real_of_int (fst (getLocationItem ?p n)) * ih"
    unfolding rest by (simp add: algebra_simps)
  also have "\<dots> = real_of_int (fst (getLocationItem ?p n)) * ih"
    using pd assms(1) by simp
  finally show ?thesis .
qed

lemma getScrollPercentage_range:
  "0 \<le> getScrollPercentage el" "getScrollPercentage el \<le> 1"
  by (simp_all add: getScrollPercentage_def Let_def)

lemma index_range:
  assumes "0 < n"
  shows "0 \<le> fst (getLocationItem p n)" "fst (getLocationItem p n) \<le> int n - 1"
  using assms by (simp_all add: getLocationItem_def Let_def)

lemma onScroll_accepted:
  assumes "listRef inst = Some el"
    and "Some (el_scrollTop el) \<noteq> scrollTop (state inst)"
    and "height props = Some h"
    and "itemHeight props \<noteq> 0"
  shows "onScroll props inst = Inr (inst\<lparr>state := estimate props h el (state inst)\<rparr>)"
  using assms by (simp add: onScroll_def estimate_def Let_def split: prod.splits)

lemma estimate_bounds:
  assumes "dataSource props \<noteq> []" and "0 \<le> h" and "0 < itemHeight props"
  shows "0 \<le> startIndex (estimate props h el st)"
    and "startIndex (estimate props h el st) \<le> itemIndex (estimate props h el st)"
    and "itemIndex (estimate props h el st) \<le> endIndex (estimate props h el st)"
    and "endIndex (estimate props h el st) \<le> int (length (dataSource props)) - 1"
proof -
  let ?p = "getScrollPercentage el"
  let ?n = "length (dataSource props)"
  let ?v = "\<lceil>h / itemHeight props\<rceil>"
  have n: "0 < ?n" using assms(1) by simp
  have v: "0 \<le> ?v" using assms(2,3) by (rule visible_nonneg)
  have b: "0 \<le> \<lceil>?p * real_of_int ?v\<rceil>"
    using getScrollPercentage_range(1) v by (rule count_nonneg)
  have "0 \<le> 1 - ?p" using getScrollPercentage_range(2) [of el] by simp
  then have a: "0 \<le> \<lceil>(1 - ?p) * real_of_int ?v\<rceil>"
    using v by (rule count_nonneg)
  note idx = index_range [OF n, of ?p]
  show "0 \<le> startIndex (estimate props h el st)" by (simp add: estimate_def)
  show "startIndex (estimate props h el st) \<le> itemIndex (estimate props h el st)"
    using b idx by (simp add: estimate_def)
  show "itemIndex (estimate props h el st) \<le> endIndex (estimate props h el st)"
    using a idx by (simp add: estimate_def)
  show "endIndex (estimate props h el st) \<le> int (length (dataSource props)) - 1"
    by (simp add: estimate_def)
qed

lemma estimate_size:
  assumes "dataSource props \<noteq> []" and "0 \<le> h" and "0 < itemHeight props"
  shows "min \<lceil>h / itemHeight props\<rceil> (int (length (dataSource props)))
     \<le> endIndex (estimate props h el st) - startIndex (estimate props h el st) + 1"
proof -
  have n: "0 < length (dataSource props)" using assms(1) by simp
  have v: "0 \<le> \<lceil>h / itemHeight props\<rceil>" using assms(2,3) by (rule visible_nonneg)
  show ?thesis
    using window_size [OF getScrollPercentage_range v n, of el]
    by (simp add: estimate_def)
qed

lemma js_slice_single:
  assumes "0 \<le> i" and "i < int (length xs)"
  shows "length (js_slice xs i (i + 1)) = 1"
proof -
  have "nat i < length xs" using assms by linarith
  then have "1 \<le> length xs - nat i" by simp
  moreover have "min (i + 1) (int (length xs)) - min i (int (length xs)) = 1"
    using assms by simp
  ultimately show ?thesis using assms(1) by (simp add: js_slice_def Let_def)
qed

subsection \<open>The commit and the render\<close>

lemma componentDidUpdate_measure:
  assumes "status (state inst) = MEASURE_START" and "listRef inst = Some el"
  shows "\<exists>inst'. componentDidUpdate prevProps props nodeHeight inst = Inr inst'
    \<and> status (state inst') = MEASURE_DONE
    \<and> listRef inst' = listRef inst
    \<and> scrollTop (state inst') = scrollTop (state inst)
    \<and> startIndex (state inst') = startIndex (state inst)
    \<and> endIndex (state inst') = endIndex (state inst)
    \<and> itemIndex (state inst') = itemIndex (state inst)
    \<and> startItemTop (state inst') =
        walk_back props
          (measure_loop props nodeHeight (startIndex (state inst)) (endIndex (state inst))
             (itemElementHeights inst))
          (itemIndex (state inst) - 1) (startIndex (state inst))
          (el_scrollTop el + scrollPtg (state inst) * clientHeight el
            - itemOffsetPtg (state inst)
              * height_or_0
                  (measure_loop props nodeHeight (startIndex (state inst)) (endIndex (state inst))
                     (itemElementHeights inst))
                  (prop_name (getItemKey props (itemIndex (state inst)))))"
  using assms by (simp add: componentDidUpdate_def measure_window_def Let_def)

lemma componentDidUpdate_idle:
  assumes "status (state inst) \<noteq> MEASURE_START"
  shows "\<exists>inst'. componentDidUpdate prevProps props nodeHeight inst = Inr inst'
    \<and> state inst' = state inst \<and> listRef inst' = listRef inst"
  using assms by (simp add: componentDidUpdate_def)

lemma componentDidUpdate_keeps_offset:
  assumes "componentDidUpdate prevProps props nodeHeight inst = Inr inst'"
  shows "listRef inst' = listRef inst \<and> scrollTop (state inst') = scrollTop (state inst)"
  using assms
  by (auto simp: componentDidUpdate_def measure_window_def Let_def
      split: if_splits option.splits)

lemma onScroll_same_offset:
  assumes "listRef inst = Some el" and "scrollTop (state inst) = Some (el_scrollTop el)"
  shows "onScroll props inst = Inr inst"
  using assms by (simp add: onScroll_def)

lemma renderChildren_all:
  "renderChildren props xs s =
     map (\<lambda>i. (getItemKey props (s + int i), xs ! i)) [0..<length xs]"
proof (rule nth_equalityI)
  show "length (renderChildren props xs s) =
      length (map (\<lambda>i. (getItemKey props (s + int i), xs ! i)) [0..<length xs])"
    by (simp add: renderChildren_def)
next
  fix i
  assume "i < length (renderChildren props xs s)"
  then have "i < length xs" by (simp add: renderChildren_def)
  then show "renderChildren props xs s ! i =
      map (\<lambda>i. (getItemKey props (s + int i), xs ! i)) [0..<length xs] ! i"
    by (simp add: renderChildren_def nth_enumerate_eq)
qed

lemma mount_virtual:
  assumes "\<not> pure_list props"
  shows "mount props host = onScroll props (attached (host\<lparr>el_scrollTop := 0\<rparr>))"
  using assms by (simp add: mount_def render_def componentDidMount_def attached_def)

lemma mount_pure_list:
  assumes "pure_list props"
  shows "mount props host = Inl TypeError"
  using assms by (simp add: mount_def render_def componentDidMount_def)

lemma virtual_item_height:
  assumes "\<not> pure_list props" and "height props = Some h" and "0 \<le> h"
  shows "0 < itemHeight props"
proof -
  have "h < real (length (dataSource props)) * itemHeight props"
    using assms(1,2) by (simp add: pure_list_def)
  with assms(3) have "0 < real (length (dataSource props)) * itemHeight props" by simp
  then show ?thesis by (simp add: zero_less_mult_iff)
qed

lemma render_pure_list:
  assumes "height props = None
      \<or> (\<exists>h. height props = Some h \<and> real (length (dataSource props)) * itemHeight props \<le> h)"
  shows "map snd (r_children (render props st)) = dataSource props
    \<and> map fst (r_children (render props st)) =
        map (\<lambda>i. getItemKey props (int i)) [0..<length (dataSource props)]
    \<and> \<not> r_onScroll (render props st)
    \<and> \<not> r_ref (render props st)
    \<and> render props st = render props initial_state"
proof -
  have p: "pure_list props" using assms by (auto simp: pure_list_def)
  have c: "r_children (render props st) =
      map (\<lambda>i. (getItemKey props (0 + int i), dataSource props ! i)) [0..<length (dataSource props)]"
    using p by (simp add: render_def renderChildren_all)
  have "map snd (r_children (render props st)) = dataSource props"
    unfolding c by (simp add: o_def map_nth)
  moreover have "map fst (r_children (render props st)) =
        map (\<lambda>i. getItemKey props (int i)) [0..<length (dataSource props)]"
    unfolding c by simp
  ultimately show ?thesis using p by (simp add: render_def)
qed

subsection \<open>The corrected offset of a uniform list in exact arithmetic\<close>

text \<open>
  Over the reals the backward walk of a uniform list ends at
  \<open>startIndex \<times> itemHeight\<close>, for every scroll offset below the end of the scrollable
  range. This is the value that the offset computed in doubles is compared with.
\<close>

lemma uniform_offset_exact:
  assumes "listRef inst = Some el"
    and "Some (el_scrollTop el) \<noteq> scrollTop (state inst)"
    and "dataSource props \<noteq> []"
    and "height props = Some h" and "0 \<le> h" and "0 < itemHeight props"
    and "scrollHeight el = real (length (dataSource props)) * itemHeight props"
    and "0 \<le> el_scrollTop el"
    and "el_scrollTop el < scrollHeight el - clientHeight el"
    and "\<And>k. nodeHeight k = itemHeight props"
  shows "\<exists>inst1 inst2. onScroll props inst = Inr inst1
    \<and> componentDidUpdate prevProps props nodeHeight inst1 = Inr inst2
    \<and> status (state inst2) = MEASURE_DONE
    \<and> startIndex (state inst2) = startIndex (state inst1)
    \<and> startItemTop (state inst2) = real_of_int (startIndex (state inst2)) * itemHeight props"
proof -
  let ?n = "length (dataSource props)"
  let ?ih = "itemHeight props"
  let ?st = "estimate props h el (state inst)"
  let ?inst1 = "inst\<lparr>state := ?st\<rparr>"
  let ?hs = "measure_loop props nodeHeight (startIndex ?st) (endIndex ?st) (itemElementHeights ?inst1)"
  have "?ih \<noteq> 0" using assms(6) by simp
  note run = onScroll_accepted [OF assms(1,2,4) this]
  note bounds = estimate_bounds [OF assms(3,5,6), of el "state inst"]
  have measured: "height_or_0 ?hs (prop_name (getItemKey props j)) = ?ih"
    if "startIndex ?st \<le> j" and "j \<le> endIndex ?st" for j
    using that assms(10) by (simp add: measure_loop_window)
  have located: "height_or_0 ?hs (prop_name (getItemKey props (itemIndex ?st))) = ?ih"
    using bounds(2,3) by (rule measured)
  have walk: "walk_back props ?hs (itemIndex ?st - 1) (startIndex ?st) t =
      t - real_of_int (itemIndex ?st - 1 + 1 - startIndex ?st) * ?ih" for t
  proof (rule walk_back_uniform)
    fix j
    assume "startIndex ?st \<le> j" and "j \<le> itemIndex ?st - 1"
    with bounds(3) have "startIndex ?st \<le> j" and "j \<le> endIndex ?st" by simp_all
    then show "height_or_0 ?hs (prop_name (getItemKey props j)) = ?ih" by (rule measured)
  next
    show "startIndex ?st \<le> itemIndex ?st - 1 + 1" using bounds(2) by simp
  qed
  have pinned: "el_scrollTop el + scrollPtg ?st * clientHeight el - itemOffsetPtg ?st * ?ih
      = real_of_int (itemIndex ?st) * ?ih"
    using located_item_top_uniform [OF assms(7,8,9)] assms(3) by (simp add: estimate_def)
  have s1: "status (state ?inst1) = MEASURE_START" by (simp add: estimate_def)
  have r1: "listRef ?inst1 = Some el" using assms(1) by simp
  from componentDidUpdate_measure [OF s1 r1, of prevProps props nodeHeight]
  obtain inst2 where c: "componentDidUpdate prevProps props nodeHeight ?inst1 = Inr inst2"
    and d: "status (state inst2) = MEASURE_DONE"
    and s: "startIndex (state inst2) = startIndex (state ?inst1)"
    and t: "startItemTop (state inst2) =
        walk_back props ?hs (itemIndex ?st - 1) (startIndex ?st)
          (el_scrollTop el + scrollPtg ?st * clientHeight el
            - itemOffsetPtg ?st * height_or_0 ?hs (prop_name (getItemKey props (itemIndex ?st))))"
    by auto
  have "startItemTop (state inst2) =
      real_of_int (itemIndex ?st) * ?ih
        - real_of_int (itemIndex ?st - 1 + 1 - startIndex ?st) * ?ih"
    unfolding t located walk pinned ..
  also have "\<dots> = real_of_int (startIndex ?st) * ?ih" by (simp add: algebra_simps)
  finally have "startItemTop (state inst2) = real_of_int (startIndex (state inst2)) * ?ih"
    using s by simp
  with run c d s show ?thesis by blast
qed

subsection \<open>The rounding of doubles: relative error\<close>






lemma binade_upper:
  assumes "0 < x"
  shows "x < 2 powi (binade x + 1)"
  using assms
proof (induction x rule: binade.induct)
  case (1 x)
  show ?case
  proof (cases "2 \<le> x")
    case True
    then have "x / 2 < 2 powi (binade (x / 2) + 1)"
      using "1.prems" by (intro "1.IH"(1)) simp_all
    moreover have "binade x = binade (x / 2) + 1"
      using True "1.prems" by (subst binade.simps) simp
    ultimately show ?thesis by (simp add: power_int_add)
  next
    case False
    show ?thesis
    proof (cases "x < 1")
      case True
      then have "x * 2 < 2 powi (binade (x * 2) + 1)"
        using "1.prems" False by (intro "1.IH"(2)) simp_all
      moreover have "binade x = binade (x * 2) - 1"
        using True False "1.prems" by (subst binade.simps) simp
      ultimately show ?thesis by (simp add: power_int_add)
    next
      case notsmall: False
      then have "binade x = 0" using False "1.prems" by (subst binade.simps) simp
      with False show ?thesis by simp
    qed
  qed
qed

subsection \<open>Rounding errors of the percentage and of the located item\<close>








subsection \<open>The methods in rounded arithmetic\<close>

lemmas rnd_defs =
  getScrollPercentage_rnd_def getLocationItem_rnd_def onScroll_rnd_def measure_window_rnd_def
  componentDidUpdate_rnd_def





lemma walk_back_rnd_id:
  "walk_back_rnd (\<lambda>y. y) props heights index startIdx itemTop =
     walk_back props heights index startIdx itemTop"
proof (induction props heights index startIdx itemTop rule: walk_back.induct)
  case (1 props heights index startIdx itemTop)
  show ?case
  proof (cases "index \<ge> startIdx")
    case True
    then show ?thesis
      using "1.IH" by (subst walk_back_rnd.simps, subst walk_back.simps) simp
  next
    case False
    then show ?thesis
      by (subst walk_back_rnd.simps, subst walk_back.simps) simp
  qed
qed

lemma helpers_rnd_id:
  "getScrollPercentage_rnd (\<lambda>y. y) el = getScrollPercentage el"
  "getLocationItem_rnd (\<lambda>y. y) ptg n = getLocationItem ptg n"
  by (simp_all add: getScrollPercentage_rnd_def getScrollPercentage_def getLocationItem_rnd_def
      getLocationItem_def Let_def)

lemma methods_rnd_id:
  "onScroll_rnd (\<lambda>y. y) props inst = onScroll props inst"
  "measure_window_rnd (\<lambda>y. y) props nodeHeight inst = measure_window props nodeHeight inst"
  "componentDidUpdate_rnd (\<lambda>y. y) prevProps props nodeHeight inst =
     componentDidUpdate prevProps props nodeHeight inst"
proof -
  show "onScroll_rnd (\<lambda>y. y) props inst = onScroll props inst"
    unfolding onScroll_rnd_def onScroll_def helpers_rnd_id ..
  show m: "measure_window_rnd (\<lambda>y. y) props nodeHeight inst = measure_window props nodeHeight inst"
    unfolding measure_window_rnd_def measure_window_def walk_back_rnd_id ..
  show "componentDidUpdate_rnd (\<lambda>y. y) prevProps props nodeHeight inst =
     componentDidUpdate prevProps props nodeHeight inst"
    unfolding componentDidUpdate_rnd_def componentDidUpdate_def m ..
qed

subsection \<open>The corrected offset of a uniform list in rounded arithmetic\<close>




subsection \<open>Two runs in the arithmetic of doubles\<close>





section \<open>The claims\<close>

text \<open>
  Claim C1, as the code has it. An accepted scroll event on a list that has the scroll
  listener (item height not zero) moves to phase \<open>MEASURE_START\<close> and leaves the
  corrected offset of the previous cycle in the state, but the render of that phase passes
  the offset 0 to the filler; so does the render that follows mounting. The commit then
  moves to \<open>MEASURE_DONE\<close>, and only the render of that phase passes the newly corrected
  offset.
\<close>

theorem render_offset_by_phase:
  assumes "listRef inst = Some el"
    and "Some (el_scrollTop el) \<noteq> scrollTop (state inst)"
    and "\<not> pure_list props"
    and "itemHeight props \<noteq> 0"
  shows "\<exists>inst1 inst2 m. onScroll props inst = Inr inst1
    \<and> status (state inst1) = MEASURE_START
    \<and> startItemTop (state inst1) = startItemTop (state inst)
    \<and> filler_offset (render props (state inst1)) = Some 0
    \<and> componentDidUpdate prevProps props nodeHeight inst1 = Inr inst2
    \<and> status (state inst2) = MEASURE_DONE
    \<and> filler_offset (render props (state inst2)) = Some (startItemTop (state inst2))
    \<and> mount props host = Inr m
    \<and> status (state m) = MEASURE_START
    \<and> filler_offset (render props (state m)) = Some 0"
proof -
  note ih = assms(4)
  obtain h where h: "height props = Some h"
    using assms(3) by (cases "height props") (simp_all add: pure_list_def)
  let ?inst1 = "inst\<lparr>state := estimate props h el (state inst)\<rparr>"
  have run: "onScroll props inst = Inr ?inst1"
    using assms(1,2) h ih by (rule onScroll_accepted)
  have s1: "status (state ?inst1) = MEASURE_START" by (simp add: estimate_def)
  have t1: "startItemTop (state ?inst1) = startItemTop (state inst)" by (simp add: estimate_def)
  have o1: "filler_offset (render props (state ?inst1)) = Some 0"
    using assms(3) by (simp add: render_def estimate_def)
  have r1: "listRef ?inst1 = Some el" using assms(1) by simp
  from componentDidUpdate_measure [OF s1 r1, of prevProps props nodeHeight]
  obtain inst2 where c: "componentDidUpdate prevProps props nodeHeight ?inst1 = Inr inst2"
    and d: "status (state inst2) = MEASURE_DONE"
    by blast
  have o2: "filler_offset (render props (state inst2)) = Some (startItemTop (state inst2))"
    using assms(3) d by (simp add: render_def)
  let ?host = "host\<lparr>el_scrollTop := 0\<rparr>"
  let ?m = "(attached ?host)\<lparr>state := estimate props h ?host (state (attached ?host))\<rparr>"
  have "onScroll props (attached ?host) = Inr ?m"
    using h ih by (intro onScroll_accepted) (simp_all add: attached_def initial_state_def)
  then have m: "mount props host = Inr ?m" using assms(3) by (simp add: mount_virtual)
  have ms: "status (state ?m) = MEASURE_START" by (simp add: estimate_def)
  have mo: "filler_offset (render props (state ?m)) = Some 0"
    using assms(3) by (simp add: render_def estimate_def)
  from run s1 t1 o1 c d o2 m ms mo show ?thesis by blast
qed

theorem render_offset_by_phase_witness:
  "listRef (attached (scrolled_host 10 30 60)) = Some (scrolled_host 10 30 60)
   \<and> Some (el_scrollTop (scrolled_host 10 30 60))
        \<noteq> scrollTop (state (attached (scrolled_host 10 30 60)))
   \<and> \<not> pure_list (plain_props 10 (Some 30))
   \<and> itemHeight (plain_props 10 (Some 30)) \<noteq> 0
   \<and> (\<exists>inst1 inst2 m.
        onScroll (plain_props 10 (Some 30)) (attached (scrolled_host 10 30 60)) = Inr inst1
        \<and> status (state inst1) = MEASURE_START
        \<and> filler_offset (render (plain_props 10 (Some 30)) (state inst1)) = Some 0
        \<and> componentDidUpdate (plain_props 10 (Some 30)) (plain_props 10 (Some 30))
              (uniform_layout 15) inst1 = Inr inst2
        \<and> status (state inst2) = MEASURE_DONE
        \<and> filler_offset (render (plain_props 10 (Some 30)) (state inst2))
             = Some (startItemTop (state inst2))
        \<and> mount (plain_props 10 (Some 30)) (plain_host 10 30) = Inr m
        \<and> status (state m) = MEASURE_START
        \<and> filler_offset (render (plain_props 10 (Some 30)) (state m)) = Some 0)"
proof -
  let ?el = "scrolled_host 10 30 60"
  let ?P = "plain_props 10 (Some 30)"
  have h1: "listRef (attached ?el) = Some ?el" by (simp add: attached_def)
  have h2: "Some (el_scrollTop ?el) \<noteq> scrollTop (state (attached ?el))"
    by (simp add: attached_def initial_state_def)
  have h3: "\<not> pure_list ?P" by (simp add: plain_props_def pure_list_def defaultItemHeight_def)
  have h4: "itemHeight ?P \<noteq> 0" by (simp add: plain_props_def defaultItemHeight_def)
  from render_offset_by_phase
    [where nodeHeight = "uniform_layout 15" and prevProps = ?P and host = "plain_host 10 30",
      OF h1 h2 h3 h4]
  have "\<exists>inst1 inst2 m.
        onScroll ?P (attached ?el) = Inr inst1
        \<and> status (state inst1) = MEASURE_START
        \<and> filler_offset (render ?P (state inst1)) = Some 0
        \<and> componentDidUpdate ?P ?P (uniform_layout 15) inst1 = Inr inst2
        \<and> status (state inst2) = MEASURE_DONE
        \<and> filler_offset (render ?P (state inst2)) = Some (startItemTop (state inst2))
        \<and> mount ?P (plain_host 10 30) = Inr m
        \<and> status (state m) = MEASURE_START
        \<and> filler_offset (render ?P (state m)) = Some 0"
    by blast
  with h1 h2 h3 h4 show ?thesis by blast
qed

text \<open>
  Against C1 as it was stated, three cycles on ten items of height 15 in a viewport of
  height 30: mounting, a scroll to the offset 60, which ends with the corrected offset 60,
  and a scroll to the offset 120. In phase \<open>MEASURE_START\<close> of the third cycle the state
  still holds the offset 60 of the second, and the render passes 0.
\<close>

theorem stale_offset_not_rendered:
  "state_of (bind_fault
       (mount_cycle (plain_props 10 (Some 30)) (uniform_layout 15) (plain_host 10 30))
       (scroll_cycle (plain_props 10 (Some 30)) (uniform_layout 15) 60))
     = Some \<lparr>status = MEASURE_DONE, scrollTop = Some 60, scrollPtg = 1 / 2, itemIndex = 5,
             itemOffsetPtg = 0, startIndex = 4, endIndex = 6, startItemTop = 60\<rparr>
   \<and> state_of (bind_fault (bind_fault
       (mount_cycle (plain_props 10 (Some 30)) (uniform_layout 15) (plain_host 10 30))
       (scroll_cycle (plain_props 10 (Some 30)) (uniform_layout 15) 60))
       (scroll_to (plain_props 10 (Some 30)) 120))
     = Some \<lparr>status = MEASURE_START, scrollTop = Some 120, scrollPtg = 1, itemIndex = 9,
             itemOffsetPtg = 0, startIndex = 7, endIndex = 9, startItemTop = 60\<rparr>
   \<and> filler_offset (render (plain_props 10 (Some 30))
        \<lparr>status = MEASURE_START, scrollTop = Some 120, scrollPtg = 1, itemIndex = 9,
         itemOffsetPtg = 0, startIndex = 7, endIndex = 9, startItemTop = 60\<rparr>) = Some 0
   \<and> filler_offset (render (plain_props 10 (Some 30))
        \<lparr>status = MEASURE_START, scrollTop = Some 120, scrollPtg = 1, itemIndex = 9,
         itemOffsetPtg = 0, startIndex = 7, endIndex = 9, startItemTop = 60\<rparr>) \<noteq> Some 60"
  by (simp add: run_defs Let_def measure_loop.simps walk_back.simps digits.simps)

text \<open>
  Claim C2, on which the code falls short. A list of 1000 items is mounted and scrolled to
  the middle, which leaves the window \<open>[496, 504]\<close>; then the data source shrinks to 10
  items. \<open>componentDidUpdate\<close> sees the change of length and only writes to the console:
  the bounds stay \<open>[496, 504]\<close>, outside \<open>[0, 9]\<close>, and the render of the shrunk
  list, which still has the listener, has no child.
\<close>

theorem shrunk_data_source_keeps_stale_bounds:
  "state_of (bind_fault (bind_fault
       (mount_cycle (plain_props 1000 (Some 100)) (uniform_layout 15) (plain_host 1000 100))
       (scroll_cycle (plain_props 1000 (Some 100)) (uniform_layout 15) 7450))
       (componentDidUpdate (plain_props 1000 (Some 100)) (plain_props 10 (Some 100))
          (uniform_layout 15)))
     = Some \<lparr>status = MEASURE_DONE, scrollTop = Some 7450, scrollPtg = 1 / 2, itemIndex = 500,
             itemOffsetPtg = 0, startIndex = 496, endIndex = 504, startItemTop = 7440\<rparr>
   \<and> \<not> pure_list (plain_props 10 (Some 100))
   \<and> r_children (render (plain_props 10 (Some 100))
        \<lparr>status = MEASURE_DONE, scrollTop = Some 7450, scrollPtg = 1 / 2, itemIndex = 500,
         itemOffsetPtg = 0, startIndex = 496, endIndex = 504, startItemTop = 7440\<rparr>) = []"
  by (simp add: run_defs Let_def measure_loop.simps walk_back.simps digits.simps)

text \<open>
  Claim C3, on which the code falls short. Whenever \<open>render\<close> takes the pure-list
  branch no node is attached to \<open>listRef\<close>, and \<open>componentDidMount\<close> writes
  \<open>scrollTop\<close> of \<open>null\<close>: mounting throws for an empty data source without a
  height, for an empty data source with a height, and for three items that fit the
  viewport.
\<close>

theorem mount_pure_list_throws:
  "mount (plain_props 0 None) (plain_host 0 0) = Inl TypeError
   \<and> mount (plain_props 0 (Some 300)) (plain_host 0 300) = Inl TypeError
   \<and> mount (plain_props 3 (Some 300)) (plain_host 3 300) = Inl TypeError"
  by (simp add: run_defs Let_def)




text \<open>
  Claim C5. After an accepted scroll event on a non-empty data source, with a non-negative
  viewport height and a positive nominal item height, \<open>onScroll\<close> returns, the located
  index is the one of the Location Estimator, and the stored bounds satisfy
  \<open>0 \<le> startIndex \<le> itemIndex \<le> endIndex \<le> length dataSource - 1\<close>.
\<close>

theorem onScroll_window_bounds:
  assumes "listRef inst = Some el"
    and "Some (el_scrollTop el) \<noteq> scrollTop (state inst)"
    and "dataSource props \<noteq> []"
    and "height props = Some h" and "0 \<le> h" and "0 < itemHeight props"
  shows "\<exists>inst'. onScroll props inst = Inr inst'
    \<and> itemIndex (state inst') =
        fst (getLocationItem (getScrollPercentage el) (length (dataSource props)))
    \<and> 0 \<le> startIndex (state inst')
    \<and> startIndex (state inst') \<le> itemIndex (state inst')
    \<and> itemIndex (state inst') \<le> endIndex (state inst')
    \<and> endIndex (state inst') \<le> int (length (dataSource props)) - 1"
proof -
  have "itemHeight props \<noteq> 0" using assms(6) by simp
  note run = onScroll_accepted [OF assms(1,2,4) this]
  note bounds = estimate_bounds [OF assms(3,5,6), of el "state inst"]
  have "itemIndex (estimate props h el (state inst)) =
      fst (getLocationItem (getScrollPercentage el) (length (dataSource props)))"
    by (simp add: estimate_def)
  with run bounds show ?thesis by simp
qed

theorem onScroll_window_bounds_witness:
  "listRef (attached (scrolled_host 10 30 60))
      = Some (scrolled_host 10 30 60)
   \<and> Some (el_scrollTop (scrolled_host 10 30 60))
      \<noteq> scrollTop (state (attached (scrolled_host 10 30 60)))
   \<and> dataSource (plain_props 10 (Some 30)) \<noteq> []
   \<and> height (plain_props 10 (Some 30)) = Some 30 \<and> (0::real) \<le> 30
   \<and> 0 < itemHeight (plain_props 10 (Some 30))
   \<and> (\<exists>inst'. onScroll (plain_props 10 (Some 30))
          (attached (scrolled_host 10 30 60)) = Inr inst'
        \<and> itemIndex (state inst') = 5
        \<and> 0 \<le> startIndex (state inst')
        \<and> startIndex (state inst') \<le> itemIndex (state inst')
        \<and> itemIndex (state inst') \<le> endIndex (state inst')
        \<and> endIndex (state inst') \<le> 9)"
proof -
  let ?el = "scrolled_host 10 30 60"
  let ?P = "plain_props 10 (Some 30)"
  have h1: "listRef (attached ?el) = Some ?el" by (simp add: attached_def)
  have h2: "Some (el_scrollTop ?el) \<noteq> scrollTop (state (attached ?el))"
    by (simp add: attached_def initial_state_def)
  have h3: "dataSource ?P \<noteq> []" by (simp add: plain_props_def)
  have h4: "height ?P = Some 30" by (simp add: plain_props_def)
  have h5: "(0::real) \<le> 30" by simp
  have h6: "0 < itemHeight ?P" by (simp add: plain_props_def defaultItemHeight_def)
  have idx: "fst (getLocationItem (getScrollPercentage ?el) (length (dataSource ?P))) = 5"
    by (simp add: run_defs Let_def)
  have len: "int (length (dataSource ?P)) - 1 = 9" by (simp add: plain_props_def)
  show ?thesis
    using onScroll_window_bounds [OF h1 h2 h3 h4 h5 h6] h1 h2 h3 h4 h6
    unfolding idx len by simp
qed

text \<open>
  Claim C6. After an accepted scroll event (non-empty data source, non-negative viewport
  height \<open>h\<close>, positive nominal item height) the window \<open>[startIndex, endIndex]\<close>
  holds at least \<open>ceil (h / itemHeight)\<close> items, or every item of the data source when
  it has fewer than that. With 1000 items, item height 15 and viewport height 300 the window
  holds at least 20 items, and at scroll offset 0 the located index is 0.
\<close>

theorem onScroll_window_size:
  assumes "listRef inst = Some el"
    and "Some (el_scrollTop el) \<noteq> scrollTop (state inst)"
    and "dataSource props \<noteq> []"
    and "height props = Some h" and "0 \<le> h" and "0 < itemHeight props"
  shows "\<exists>inst'. onScroll props inst = Inr inst'
    \<and> min \<lceil>h / itemHeight props\<rceil> (int (length (dataSource props)))
          \<le> endIndex (state inst') - startIndex (state inst') + 1
    \<and> (length (dataSource props) = 1000 \<and> itemHeight props = 15 \<and> h = 300
          \<longrightarrow> 20 \<le> endIndex (state inst') - startIndex (state inst') + 1)
    \<and> (el_scrollTop el = 0 \<longrightarrow> itemIndex (state inst') = 0)"
proof -
  have "itemHeight props \<noteq> 0" using assms(6) by simp
  note run = onScroll_accepted [OF assms(1,2,4) this]
  let ?st = "estimate props h el (state inst)"
  have size: "min \<lceil>h / itemHeight props\<rceil> (int (length (dataSource props)))
      \<le> endIndex ?st - startIndex ?st + 1"
    using assms(3,5,6) by (rule estimate_size)
  have scenario: "20 \<le> endIndex ?st - startIndex ?st + 1"
    if "length (dataSource props) = 1000 \<and> itemHeight props = 15 \<and> h = 300"
  proof -
    have "\<lceil>h / itemHeight props\<rceil> = 20" using that by simp
    moreover have "int (length (dataSource props)) = 1000" using that by simp
    ultimately show ?thesis using size by simp
  qed
  have top: "itemIndex ?st = 0" if "el_scrollTop el = 0"
  proof -
    have "getScrollPercentage el = 0"
      using that by (simp add: getScrollPercentage_def Let_def)
    moreover have "0 < length (dataSource props)" using assms(3) by simp
    ultimately show ?thesis by (simp add: estimate_def getLocationItem_def Let_def)
  qed
  show ?thesis using run size scenario top by simp
qed

theorem onScroll_window_size_witness:
  "listRef (attached (plain_host 1000 300)) = Some (plain_host 1000 300)
   \<and> Some (el_scrollTop (plain_host 1000 300)) \<noteq> scrollTop (state (attached (plain_host 1000 300)))
   \<and> dataSource (plain_props 1000 (Some 300)) \<noteq> []
   \<and> height (plain_props 1000 (Some 300)) = Some 300 \<and> (0::real) \<le> 300
   \<and> 0 < itemHeight (plain_props 1000 (Some 300))
   \<and> length (dataSource (plain_props 1000 (Some 300))) = 1000
   \<and> itemHeight (plain_props 1000 (Some 300)) = 15
   \<and> el_scrollTop (plain_host 1000 300) = 0
   \<and> (\<exists>inst'. onScroll (plain_props 1000 (Some 300)) (attached (plain_host 1000 300)) = Inr inst'
        \<and> 20 \<le> endIndex (state inst') - startIndex (state inst') + 1
        \<and> itemIndex (state inst') = 0)"
proof -
  let ?el = "plain_host 1000 300"
  let ?P = "plain_props 1000 (Some 300)"
  have h1: "listRef (attached ?el) = Some ?el" by (simp add: attached_def)
  have h2: "Some (el_scrollTop ?el) \<noteq> scrollTop (state (attached ?el))"
    by (simp add: attached_def initial_state_def)
  have h3: "dataSource ?P \<noteq> []" by (simp add: plain_props_def)
  have h4: "height ?P = Some 300" by (simp add: plain_props_def)
  have h5: "(0::real) \<le> 300" by simp
  have h6: "0 < itemHeight ?P" by (simp add: plain_props_def defaultItemHeight_def)
  have h7: "length (dataSource ?P) = 1000" by (simp add: plain_props_def)
  have h8: "itemHeight ?P = 15" by (simp add: plain_props_def defaultItemHeight_def)
  have h9: "el_scrollTop ?el = 0" by (simp add: plain_host_def)
  from onScroll_window_size [OF h1 h2 h3 h4 h5 h6]
  obtain inst' where r: "onScroll ?P (attached ?el) = Inr inst'"
    and a: "length (dataSource ?P) = 1000 \<and> itemHeight ?P = 15 \<and> (300::real) = 300
          \<longrightarrow> 20 \<le> endIndex (state inst') - startIndex (state inst') + 1"
    and b: "el_scrollTop ?el = 0 \<longrightarrow> itemIndex (state inst') = 0"
    by blast
  from a h7 h8 have "20 \<le> endIndex (state inst') - startIndex (state inst') + 1" by simp
  moreover from b h9 have "itemIndex (state inst') = 0" by simp
  ultimately have "\<exists>inst'. onScroll ?P (attached ?el) = Inr inst'
        \<and> 20 \<le> endIndex (state inst') - startIndex (state inst') + 1
        \<and> itemIndex (state inst') = 0"
    using r by blast
  with h1 h2 h3 h4 h5 h6 h7 h8 h9 show ?thesis by blast
qed

text \<open>
  Claim C7, on which the code falls short. On the pure-list branch \<open>render\<close> does
  return every item in order, with no scroll listener and no node attached (lemma
  \<open>render_pure_list\<close>, for every such props). But the measure cycle is not kept out of
  that branch: \<open>componentDidMount\<close> starts it on every mount, and with no node attached
  it throws, so a list of two items without a height does not mount; and
  \<open>componentDidUpdate\<close> does not look at the branch either: an instance left in phase
  \<open>MEASURE_START\<close>, given props that fit the viewport, is measured and moved to
  \<open>MEASURE_DONE\<close> if its node is still attached, and throws if the node is detached.
\<close>

theorem pure_list_starts_measure_cycle:
  "pure_list (plain_props 2 None)
   \<and> map snd (r_children (render (plain_props 2 None) initial_state))
        = dataSource (plain_props 2 None)
   \<and> \<not> r_onScroll (render (plain_props 2 None) initial_state)
   \<and> \<not> r_ref (render (plain_props 2 None) initial_state)
   \<and> mount (plain_props 2 None) (plain_host 2 30) = Inl TypeError
   \<and> pure_list (plain_props 10 (Some 300))
   \<and> state_of (componentDidUpdate (plain_props 10 (Some 300)) (plain_props 10 (Some 300))
        (uniform_layout 15) estimated)
     = Some \<lparr>status = MEASURE_DONE, scrollTop = Some 60, scrollPtg = 1 / 2, itemIndex = 5,
             itemOffsetPtg = 0, startIndex = 4, endIndex = 6, startItemTop = 60\<rparr>
   \<and> componentDidUpdate (plain_props 10 (Some 300)) (plain_props 10 (Some 300))
        (uniform_layout 15) (estimated\<lparr>listRef := None\<rparr>) = Inl TypeError"
  by (simp add: run_defs Let_def measure_loop.simps walk_back.simps digits.simps
      numeral_2_eq_2)

text \<open>
  Claim C8. When the scroll offset of the attached node is the one stored in the state,
  \<open>onScroll\<close> returns the instance as it is: no field of the state changes and no
  measure cycle starts. The commit of the corrective render keeps the node and the stored
  offset, so the listener run after it again changes nothing.
\<close>

theorem onScroll_unchanged_offset:
  assumes "listRef inst = Some el" and "scrollTop (state inst) = Some (el_scrollTop el)"
  shows "onScroll props inst = Inr inst
    \<and> (\<forall>prevProps nodeHeight inst'.
          componentDidUpdate prevProps props nodeHeight inst = Inr inst'
          \<longrightarrow> onScroll props inst' = Inr inst')"
proof
  show "onScroll props inst = Inr inst" using assms by (rule onScroll_same_offset)
  show "\<forall>prevProps nodeHeight inst'.
      componentDidUpdate prevProps props nodeHeight inst = Inr inst'
      \<longrightarrow> onScroll props inst' = Inr inst'"
  proof (intro allI impI)
    fix prevProps nodeHeight inst'
    assume "componentDidUpdate prevProps props nodeHeight inst = Inr inst'"
    then have "listRef inst' = listRef inst \<and> scrollTop (state inst') = scrollTop (state inst)"
      by (rule componentDidUpdate_keeps_offset)
    with assms have "listRef inst' = Some el" "scrollTop (state inst') = Some (el_scrollTop el)"
      by simp_all
    then show "onScroll props inst' = Inr inst'" by (rule onScroll_same_offset)
  qed
qed

theorem onScroll_unchanged_offset_witness:
  "listRef estimated = Some (scrolled_host 10 30 60)
   \<and> scrollTop (state estimated) = Some (el_scrollTop (scrolled_host 10 30 60))
   \<and> onScroll (plain_props 10 (Some 30)) estimated = Inr estimated
   \<and> (\<exists>inst'. componentDidUpdate (plain_props 10 (Some 30)) (plain_props 10 (Some 30))
                 (uniform_layout 15) estimated = Inr inst'
        \<and> status (state inst') = MEASURE_DONE
        \<and> onScroll (plain_props 10 (Some 30)) inst' = Inr inst')"
proof -
  let ?P = "plain_props 10 (Some 30)"
  have h1: "listRef estimated = Some (scrolled_host 10 30 60)" by (simp add: estimated_def)
  have h2: "scrollTop (state estimated) = Some (el_scrollTop (scrolled_host 10 30 60))"
    by (simp add: estimated_def scrolled_host_def)
  note fact = onScroll_unchanged_offset [OF h1 h2, of ?P]
  have "status (state estimated) = MEASURE_START" by (simp add: estimated_def)
  from componentDidUpdate_measure [OF this h1, of ?P ?P "uniform_layout 15"]
  obtain inst' where r: "componentDidUpdate ?P ?P (uniform_layout 15) estimated = Inr inst'"
    and d: "status (state inst') = MEASURE_DONE"
    by blast
  from fact r have "onScroll ?P inst' = Inr inst'" by blast
  with r d have "\<exists>inst'. componentDidUpdate ?P ?P (uniform_layout 15) estimated = Inr inst'
        \<and> status (state inst') = MEASURE_DONE \<and> onScroll ?P inst' = Inr inst'"
    by blast
  with fact h1 h2 show ?thesis by blast
qed

text \<open>
  Claim C9. With a viewport height of zero, an accepted scroll event on a list that has the
  scroll listener (so the data source is not empty and the item height is not zero) returns
  a state: no quotient by zero is formed. The window is the located item alone, which lies
  in the data source, and exactly one child is rendered.
\<close>

theorem onScroll_zero_height_viewport:
  assumes "listRef inst = Some el"
    and "Some (el_scrollTop el) \<noteq> scrollTop (state inst)"
    and "height props = Some 0"
    and "\<not> pure_list props"
  shows "\<exists>inst'. onScroll props inst = Inr inst'
    \<and> startIndex (state inst') = itemIndex (state inst')
    \<and> endIndex (state inst') = itemIndex (state inst')
    \<and> 0 \<le> itemIndex (state inst')
    \<and> itemIndex (state inst') < int (length (dataSource props))
    \<and> 1 \<le> endIndex (state inst') - startIndex (state inst') + 1
    \<and> length (r_children (render props (state inst'))) = 1"
proof -
  have pos: "0 < real (length (dataSource props)) * itemHeight props"
    using assms(3,4) by (simp add: pure_list_def)
  then have ih: "itemHeight props \<noteq> 0" by auto
  have n: "0 < length (dataSource props)" using pos by (cases "dataSource props") auto
  note run = onScroll_accepted [OF assms(1,2,3) ih]
  let ?st = "estimate props 0 el (state inst)"
  note idx = index_range [OF n, of "getScrollPercentage el"]
  have s: "startIndex ?st = itemIndex ?st" using idx by (simp add: estimate_def)
  have e: "endIndex ?st = itemIndex ?st" using idx by (simp add: estimate_def)
  have i: "0 \<le> itemIndex ?st" "itemIndex ?st < int (length (dataSource props))"
    using idx by (simp_all add: estimate_def)
  have "length (js_slice (dataSource props) (itemIndex ?st) (itemIndex ?st + 1)) = 1"
    using i by (rule js_slice_single)
  then have c: "length (r_children (render props ?st)) = 1"
    using assms(4) s e by (simp add: render_def renderChildren_def)
  show ?thesis using run s e i c by simp
qed

theorem onScroll_zero_height_viewport_witness:
  "listRef (attached (scrolled_host 10 0 60)) = Some (scrolled_host 10 0 60)
   \<and> Some (el_scrollTop (scrolled_host 10 0 60)) \<noteq> scrollTop (state (attached (scrolled_host 10 0 60)))
   \<and> height (plain_props 10 (Some 0)) = Some 0
   \<and> \<not> pure_list (plain_props 10 (Some 0))
   \<and> (\<exists>inst'. onScroll (plain_props 10 (Some 0)) (attached (scrolled_host 10 0 60)) = Inr inst'
        \<and> startIndex (state inst') = itemIndex (state inst')
        \<and> endIndex (state inst') = itemIndex (state inst')
        \<and> 0 \<le> itemIndex (state inst')
        \<and> itemIndex (state inst') < 10
        \<and> 1 \<le> endIndex (state inst') - startIndex (state inst') + 1
        \<and> length (r_children (render (plain_props 10 (Some 0)) (state inst'))) = 1)"
proof -
  let ?el = "scrolled_host 10 0 60"
  let ?P = "plain_props 10 (Some 0)"
  have h1: "listRef (attached ?el) = Some ?el" by (simp add: attached_def)
  have h2: "Some (el_scrollTop ?el) \<noteq> scrollTop (state (attached ?el))"
    by (simp add: attached_def initial_state_def scrolled_host_def)
  have h3: "height ?P = Some 0" by (simp add: plain_props_def)
  have h4: "\<not> pure_list ?P" by (simp add: plain_props_def pure_list_def defaultItemHeight_def)
  have len: "int (length (dataSource ?P)) = 10" by (simp add: plain_props_def)
  show ?thesis
    using onScroll_zero_height_viewport [OF h1 h2 h3 h4] h1 h2 h3 h4
    unfolding len by simp
qed

text \<open>
  Claim C10. At an index outside the data source, or one whose item is falsy,
  \<open>getItemKey\<close> returns the index itself, whatever \<open>itemKey\<close> is configured; so
  the key field is read only off an item that is present and truthy.
\<close>

theorem getItemKey_without_item:
  assumes "index < 0 \<or> int (length (dataSource props)) \<le> index
      \<or> dataSource props ! nat index = Falsy"
  shows "getItemKey props index = JNum index"
proof -
  have "\<not> truthy (js_index (dataSource props) index)"
    using assms by (auto simp: js_index_def truthy_def)
  then show ?thesis by (simp add: getItemKey_def Let_def split: option.splits)
qed

theorem getItemKey_without_item_witness:
  "dataSource keyed_props ! nat 1 = Falsy
   \<and> getItemKey keyed_props 1 = JNum 1
   \<and> int (length (dataSource keyed_props)) \<le> 7
   \<and> getItemKey keyed_props 7 = JNum 7
   \<and> getItemKey keyed_props 2 = JStr ''c''"
proof -
  have h1: "dataSource keyed_props ! nat 1 = Falsy" by (simp add: keyed_props_def)
  have h2: "int (length (dataSource keyed_props)) \<le> 7" by (simp add: keyed_props_def)
  have "getItemKey keyed_props 1 = JNum 1"
    using h1 by (intro getItemKey_without_item) simp
  moreover have "getItemKey keyed_props 7 = JNum 7"
    using h2 by (intro getItemKey_without_item) simp
  moreover have "getItemKey keyed_props 2 = JStr ''c''"
    by (simp add: keyed_props_def getItemKey_def js_index_def truthy_def get_field_def)
  ultimately show ?thesis using h1 h2 by blast
qed

end
